theory Spec2Isabelle
  imports Complex_Main
begin

section \<open>Cube faces for the leaves of a spatial tree (grid\_plotter.py)\<close>

text \<open>
  The module \<^verbatim>\<open>content/notebooks/grid_plotter.py\<close> has three face builders
  (\<^verbatim>\<open>plot_surface_xy\<close>, \<^verbatim>\<open>plot_surface_yz\<close>, \<^verbatim>\<open>plot_surface_xz\<close>), the function
  \<^verbatim>\<open>plot_cube\<close> that joins their results, and the procedure \<^verbatim>\<open>grid_plotter\<close> that
  reads the leaves of a tree and submits every face to a 3D axes object.

  Numbers are kept abstract: the builders only add (\<open>x + length\<close>) and the renderer only
  subtracts (\<open>upper[0] - lower[0]\<close>), so the coordinate type is any type with \<open>+\<close> and
  \<open>-\<close>; whatever the arithmetic of the Python numbers is, it is an instance.
\<close>

subsection \<open>Data\<close>

text \<open>A two-dimensional array is the list of its rows; a face is the triple of
  coordinate arrays that \<^verbatim>\<open>plot_surface\<close> receives.\<close>

type_synonym 'a grid = "'a list list"

type_synonym 'a face = "'a grid \<times> 'a grid \<times> 'a grid"

text \<open>Exceptions: the \<^verbatim>\<open>IndexError\<close> of a subscript out of range, and any exception
  raised by a method of the tree or of one of its nodes, named by its message.\<close>

datatype error = IndexError | Raised string

subsection \<open>Library operations used by the module\<close>

text \<open>\<^verbatim>\<open>np.meshgrid(xs, ys)\<close> with the default \<^verbatim>\<open>indexing='xy'\<close>: both results have one
  row per element of \<open>ys\<close> and one column per element of \<open>xs\<close>; the first repeats \<open>xs\<close> in
  every row, the second repeats the element of \<open>ys\<close> along its row.\<close>

definition meshgrid :: "'a list \<Rightarrow> 'a list \<Rightarrow> 'a grid \<times> 'a grid" where
  "meshgrid xs ys = (map (\<lambda>_. xs) ys, map (\<lambda>y. map (\<lambda>_. y) xs) ys)"

text \<open>The subscript \<^verbatim>\<open>xs[i]\<close> of a Python sequence: a negative index counts from the
  end, an index outside the sequence raises.\<close>

definition subscript :: "'a list \<Rightarrow> int \<Rightarrow> error + 'a" where
  "subscript xs i =
     (if 0 \<le> i \<and> i < int (length xs) then Inr (xs ! nat i)
      else if i < 0 \<and> - int (length xs) \<le> i then Inr (xs ! nat (int (length xs) + i))
      else Inl IndexError)"

text \<open>\<^verbatim>\<open>range(n)\<close>: the integers from 0 below \<open>n\<close>, none when \<open>n\<close> is not positive.\<close>

definition py_range :: "int \<Rightarrow> int list" where
  "py_range n = map int [0 ..< nat n]"

subsection \<open>The face builders\<close>

definition plot_surface_xy :: "'a::plus \<Rightarrow> 'a \<Rightarrow> 'a \<Rightarrow> 'a \<Rightarrow> 'a face \<times> 'a face" where
  "plot_surface_xy x y z len =
     (let rx = [x, x + len];
          ry = [y, y + len];
          (X, Y) = meshgrid rx ry;
          r_1 = [z, z];
          r_2 = [z + len, z + len];
          p1 = fst (meshgrid r_1 r_1);
          p2 = fst (meshgrid r_2 r_2)
      in ((X, Y, p1), (X, Y, p2)))"

definition plot_surface_yz :: "'a::plus \<Rightarrow> 'a \<Rightarrow> 'a \<Rightarrow> 'a \<Rightarrow> 'a face \<times> 'a face" where
  "plot_surface_yz x y z len =
     (let ry = [y, y + len];
          rz = [z, z + len];
          (Y, Z) = meshgrid ry rz;
          r_1 = [x, x];
          r_2 = [x + len, x + len];
          p1 = fst (meshgrid r_1 r_1);
          p2 = fst (meshgrid r_2 r_2)
      in ((p1, Y, Z), (p2, Y, Z)))"

definition plot_surface_xz :: "'a::plus \<Rightarrow> 'a \<Rightarrow> 'a \<Rightarrow> 'a \<Rightarrow> 'a face \<times> 'a face" where
  "plot_surface_xz x y z len =
     (let rx = [x, x + len];
          rz = [z, z + len];
          (X, Z) = meshgrid rx rz;
          r_1 = [y, y];
          r_2 = [y + len, y + len];
          p1 = fst (meshgrid r_1 r_1);
          p2 = fst (meshgrid r_2 r_2)
      in ((X, p1, Z), (X, p2, Z)))"

text \<open>\<^verbatim>\<open>plot_cube\<close> reads the first three entries of \<open>corner\<close> (each subscript may
  raise) and returns the six faces as one sequence.\<close>

definition plot_cube :: "'a::plus list \<Rightarrow> 'a \<Rightarrow> error + 'a face list" where
  "plot_cube corner len =
     (case subscript corner 0 of Inl err \<Rightarrow> Inl err | Inr x \<Rightarrow>
      case subscript corner 1 of Inl err \<Rightarrow> Inl err | Inr y \<Rightarrow>
      case subscript corner 2 of Inl err \<Rightarrow> Inl err | Inr z \<Rightarrow>
        (let (a, b) = plot_surface_xy x y z len;
             (c, d) = plot_surface_yz x y z len;
             (e, f) = plot_surface_xz x y z len
         in Inr [a, b, c, d, e, f]))"

subsection \<open>The builders with their arrays in a store\<close>

text \<open>
  The arrays are objects. \<^verbatim>\<open>np.meshgrid\<close> allocates its two results at every call, and
  a face is a triple of references to arrays: the two faces that a builder returns share
  two of their three arrays. Here the store is the list of the arrays allocated so far, a
  reference is a position in it, and a function takes the store and returns the new one
  with its result. The lists \<^verbatim>\<open>rx\<close>, \<^verbatim>\<open>ry\<close>, \<^verbatim>\<open>rz\<close>, \<^verbatim>\<open>r_1\<close>, \<^verbatim>\<open>r_2\<close> are local to one
  call and only read, so they stay values.
\<close>

type_synonym ref = nat

type_synonym 'a store = "'a grid list"

type_synonym face_ref = "ref \<times> ref \<times> ref"

definition meshgrid_st :: "'a list \<Rightarrow> 'a list \<Rightarrow> 'a store \<Rightarrow> (ref \<times> ref) \<times> 'a store" where
  "meshgrid_st xs ys s =
     ((length s, Suc (length s)), s @ [fst (meshgrid xs ys), snd (meshgrid xs ys)])"

definition plot_surface_xy_st ::
  "'a::plus \<Rightarrow> 'a \<Rightarrow> 'a \<Rightarrow> 'a \<Rightarrow> 'a store \<Rightarrow> (face_ref \<times> face_ref) \<times> 'a store" where
  "plot_surface_xy_st x y z len s =
     (let rx = [x, x + len];
          ry = [y, y + len];
          ((X, Y), s1) = meshgrid_st rx ry s;
          r_1 = [z, z];
          r_2 = [z + len, z + len];
          ((p1, u1), s2) = meshgrid_st r_1 r_1 s1;
          ((p2, u2), s3) = meshgrid_st r_2 r_2 s2
      in (((X, Y, p1), (X, Y, p2)), s3))"

definition plot_surface_yz_st ::
  "'a::plus \<Rightarrow> 'a \<Rightarrow> 'a \<Rightarrow> 'a \<Rightarrow> 'a store \<Rightarrow> (face_ref \<times> face_ref) \<times> 'a store" where
  "plot_surface_yz_st x y z len s =
     (let ry = [y, y + len];
          rz = [z, z + len];
          ((Y, Z), s1) = meshgrid_st ry rz s;
          r_1 = [x, x];
          r_2 = [x + len, x + len];
          ((p1, u1), s2) = meshgrid_st r_1 r_1 s1;
          ((p2, u2), s3) = meshgrid_st r_2 r_2 s2
      in (((p1, Y, Z), (p2, Y, Z)), s3))"

definition plot_surface_xz_st ::
  "'a::plus \<Rightarrow> 'a \<Rightarrow> 'a \<Rightarrow> 'a \<Rightarrow> 'a store \<Rightarrow> (face_ref \<times> face_ref) \<times> 'a store" where
  "plot_surface_xz_st x y z len s =
     (let rx = [x, x + len];
          rz = [z, z + len];
          ((X, Z), s1) = meshgrid_st rx rz s;
          r_1 = [y, y];
          r_2 = [y + len, y + len];
          ((p1, u1), s2) = meshgrid_st r_1 r_1 s1;
          ((p2, u2), s3) = meshgrid_st r_2 r_2 s2
      in (((X, p1, Z), (X, p2, Z)), s3))"

definition plot_cube_st ::
  "'a::plus list \<Rightarrow> 'a \<Rightarrow> 'a store \<Rightarrow> (error + face_ref list) \<times> 'a store" where
  "plot_cube_st corner len s =
     (case subscript corner 0 of Inl err \<Rightarrow> (Inl err, s) | Inr x \<Rightarrow>
      case subscript corner 1 of Inl err \<Rightarrow> (Inl err, s) | Inr y \<Rightarrow>
      case subscript corner 2 of Inl err \<Rightarrow> (Inl err, s) | Inr z \<Rightarrow>
        (let ((a, b), s1) = plot_surface_xy_st x y z len s;
             ((c, d), s2) = plot_surface_yz_st x y z len s1;
             ((e, f), s3) = plot_surface_xz_st x y z len s2
         in (Inr [a, b, c, d, e, f], s3)))"

text \<open>Reading a reference: the array at that position, none when nothing was allocated
  there. Reading a face, and reading what a call returned in the store it is read in.\<close>

definition array_at :: "'a store \<Rightarrow> ref \<Rightarrow> 'a grid option" where
  "array_at s r = (if r < length s then Some (s ! r) else None)"

definition face_at :: "'a store \<Rightarrow> face_ref \<Rightarrow> 'a face option" where
  "face_at s fr =
     (case fr of (rX, rY, rZ) \<Rightarrow>
        (case (array_at s rX, array_at s rY, array_at s rZ) of
           (Some X, Some Y, Some Z) \<Rightarrow> Some (X, Y, Z)
         | _ \<Rightarrow> None))"

definition returned :: "'a store \<Rightarrow> error + face_ref list \<Rightarrow> error + 'a face option list" where
  "returned s r = (case r of Inl err \<Rightarrow> Inl err | Inr frs \<Rightarrow> Inr (map (face_at s) frs))"

subsection \<open>The tree and the axes, as the renderer sees them\<close>

text \<open>
  The tree is an object supplied by the caller. The renderer calls \<^verbatim>\<open>nEndNodes()\<close> and
  \<^verbatim>\<open>fetchEndNode(i)\<close> on it, and \<^verbatim>\<open>lowerBounds()\<close> and \<^verbatim>\<open>upperBounds()\<close> on the
  node it gets; each call returns a value or raises. The objects are not changed by the
  calls, so a method is a value (or a function of its argument).
\<close>

record 'a node =
  lowerBounds :: "error + 'a list"
  upperBounds :: "error + 'a list"

record 'a tree =
  nEndNodes :: "error + int"
  fetchEndNode :: "int \<Rightarrow> error + 'a node"

text \<open>
  What the renderer does to the outside is the sequence of calls it makes: the calls that
  set the figure up, the calls on the tree, and the calls of \<^verbatim>\<open>ax.plot_surface\<close> with
  their arguments. The calls on the figure and on the axes belong to the plotting library;
  they are recorded and taken to return.
\<close>

datatype 'a event =
    Figure
  | AddSubplot nat string
  | GridCall bool
  | AxisCall string
  | NEndNodes
  | FetchEndNode int
  | LowerBounds
  | UpperBounds
  | PlotSurface "'a grid" "'a grid" "'a grid" string real

text \<open>A piece of the procedure yields the calls it made, in order, and either the
  exception that ended it or its value.\<close>

type_synonym ('a, 'r) run = "'a event list \<times> (error + 'r)"

definition and_then :: "('a, 'r) run \<Rightarrow> ('r \<Rightarrow> ('a, 's) run) \<Rightarrow> ('a, 's) run" where
  "and_then m f =
     (case m of
        (calls, Inl err) \<Rightarrow> (calls, Inl err)
      | (calls, Inr v) \<Rightarrow> (case f v of (calls', r) \<Rightarrow> (calls @ calls', r)))"

definition silent :: "error + 'r \<Rightarrow> ('a, 'r) run" where
  "silent r = ([], r)"

definition call :: "'a event \<Rightarrow> error + 'r \<Rightarrow> ('a, 'r) run" where
  "call ev r = ([ev], r)"

text \<open>A list comprehension \<^verbatim>\<open>[f(i) for i in js]\<close> and a \<^verbatim>\<open>for\<close> loop: the first
  exception ends them.\<close>

fun comprehension :: "(int \<Rightarrow> ('a, 'r) run) \<Rightarrow> int list \<Rightarrow> ('a, 'r list) run" where
  "comprehension f [] = silent (Inr [])"
| "comprehension f (j # js) =
     and_then (f j) (\<lambda>v. and_then (comprehension f js) (\<lambda>vs. silent (Inr (v # vs))))"

fun for_loop :: "('b \<Rightarrow> ('a, unit) run) \<Rightarrow> 'b list \<Rightarrow> ('a, unit) run" where
  "for_loop body [] = silent (Inr ())"
| "for_loop body (x # xs) = and_then (body x) (\<lambda>_. for_loop body xs)"

subsection \<open>The renderer\<close>

text \<open>Line 54, \<^verbatim>\<open>corners = [tree.fetchEndNode(i).lowerBounds() for i in
  range(tree.nEndNodes())]\<close>: the element for one \<open>i\<close>, then the comprehension.\<close>

definition corner_at :: "'a tree \<Rightarrow> int \<Rightarrow> ('a, 'a list) run" where
  "corner_at tree i =
     and_then (call (FetchEndNode i) (fetchEndNode tree i)) (\<lambda>nd.
     call LowerBounds (lowerBounds nd))"

definition corners_of :: "'a tree \<Rightarrow> ('a, 'a list list) run" where
  "corners_of tree =
     and_then (call NEndNodes (nEndNodes tree)) (\<lambda>n.
     comprehension (corner_at tree) (py_range n))"

text \<open>Lines 55 to 58, \<^verbatim>\<open>lengths = [tree.fetchEndNode(i).upperBounds()[0] -
  tree.fetchEndNode(i).lowerBounds()[0] for i in range(tree.nEndNodes())]\<close>: the left
  operand of the subtraction, with its subscript, is evaluated before the right one.\<close>

definition length_at :: "'a::minus tree \<Rightarrow> int \<Rightarrow> ('a, 'a) run" where
  "length_at tree i =
     and_then (call (FetchEndNode i) (fetchEndNode tree i)) (\<lambda>nd1.
     and_then (call UpperBounds (upperBounds nd1)) (\<lambda>ub.
     and_then (silent (subscript ub 0)) (\<lambda>u.
     and_then (call (FetchEndNode i) (fetchEndNode tree i)) (\<lambda>nd2.
     and_then (call LowerBounds (lowerBounds nd2)) (\<lambda>lb.
     and_then (silent (subscript lb 0)) (\<lambda>l.
     silent (Inr (u - l))))))))"

definition lengths_of :: "'a::minus tree \<Rightarrow> ('a, 'a list) run" where
  "lengths_of tree =
     and_then (call NEndNodes (nEndNodes tree)) (\<lambda>n.
     comprehension (length_at tree) (py_range n))"

text \<open>Lines 62 and 63: every face of \<open>data\<close> goes to \<^verbatim>\<open>ax.plot_surface\<close> with the
  colour and the opacity of the source.\<close>

definition draw_faces :: "'a face list \<Rightarrow> ('a, unit) run" where
  "draw_faces data =
     for_loop (\<lambda>d. case d of (d0, d1, d2) \<Rightarrow>
                 call (PlotSurface d0 d1 d2 ''purple'' (1 / 100)) (Inr ())) data"

text \<open>Lines 60 to 63: the body of the loop for one \<open>i\<close> (the arguments of
  \<^verbatim>\<open>plot_cube\<close> are evaluated from left to right), then the loop.\<close>

definition draw_cube :: "'a::plus list list \<Rightarrow> 'a list \<Rightarrow> int \<Rightarrow> ('a, unit) run" where
  "draw_cube corners lengths i =
     and_then (silent (subscript corners i)) (\<lambda>corner.
     and_then (silent (subscript lengths i)) (\<lambda>len.
     and_then (silent (plot_cube corner len)) draw_faces))"

definition draw_cubes ::
  "'a::plus tree \<Rightarrow> 'a list list \<Rightarrow> 'a list \<Rightarrow> ('a, unit) run" where
  "draw_cubes tree corners lengths =
     and_then (call NEndNodes (nEndNodes tree)) (\<lambda>n.
     for_loop (draw_cube corners lengths) (py_range n))"

text \<open>The procedure: the figure, the 3D axes, grid and axes switched off (lines 49 to
  52), then the two comprehensions and the loop.\<close>

definition grid_plotter :: "'a::{plus,minus} tree \<Rightarrow> ('a, unit) run" where
  "grid_plotter tree =
     and_then (call Figure (Inr ())) (\<lambda>_.
     and_then (call (AddSubplot 111 ''3d'') (Inr ())) (\<lambda>_.
     and_then (call (GridCall False) (Inr ())) (\<lambda>_.
     and_then (call (AxisCall ''off'') (Inr ())) (\<lambda>_.
     and_then (corners_of tree) (\<lambda>corners.
     and_then (lengths_of tree) (\<lambda>lengths.
     draw_cubes tree corners lengths))))))"

subsection \<open>Vocabulary of the properties\<close>

text \<open>The entries of an array, and its shape: two rows of two entries.\<close>

definition grid_values :: "'a grid \<Rightarrow> 'a set" where
  "grid_values g = set (concat g)"

definition is_2x2 :: "'a grid \<Rightarrow> bool" where
  "is_2x2 g \<longleftrightarrow> map length g = [2, 2]"

definition face_2x2 :: "'a face \<Rightarrow> bool" where
  "face_2x2 fc \<longleftrightarrow> (case fc of (X, Y, Z) \<Rightarrow> is_2x2 X \<and> is_2x2 Y \<and> is_2x2 Z)"

definition grid_X :: "'a face \<Rightarrow> 'a grid" where
  "grid_X fc = fst fc"

definition grid_Y :: "'a face \<Rightarrow> 'a grid" where
  "grid_Y fc = fst (snd fc)"

definition grid_Z :: "'a face \<Rightarrow> 'a grid" where
  "grid_Z fc = snd (snd fc)"

text \<open>What a call of \<^verbatim>\<open>plot_cube\<close> in the store \<open>s\<close> returns, read in the store that the
  call leaves.\<close>

definition outcome :: "'a::plus list \<Rightarrow> 'a \<Rightarrow> 'a store \<Rightarrow> error + 'a face option list" where
  "outcome corner len s =
     returned (snd (plot_cube_st corner len s)) (fst (plot_cube_st corner len s))"

text \<open>The eighteen arrays that one call of \<^verbatim>\<open>plot_cube\<close> allocates, in the order of
  their allocation, and the references of the six faces when the first of these arrays
  is at position \<open>n\<close>.\<close>

definition cube_arrays :: "'a::plus \<Rightarrow> 'a \<Rightarrow> 'a \<Rightarrow> 'a \<Rightarrow> 'a grid list" where
  "cube_arrays x y z len =
     [[[x, x + len], [x, x + len]], [[y, y], [y + len, y + len]],
      [[z, z], [z, z]], [[z, z], [z, z]],
      [[z + len, z + len], [z + len, z + len]], [[z + len, z + len], [z + len, z + len]],
      [[y, y + len], [y, y + len]], [[z, z], [z + len, z + len]],
      [[x, x], [x, x]], [[x, x], [x, x]],
      [[x + len, x + len], [x + len, x + len]], [[x + len, x + len], [x + len, x + len]],
      [[x, x + len], [x, x + len]], [[z, z], [z + len, z + len]],
      [[y, y], [y, y]], [[y, y], [y, y]],
      [[y + len, y + len], [y + len, y + len]], [[y + len, y + len], [y + len, y + len]]]"

definition cube_refs :: "nat \<Rightarrow> face_ref list" where
  "cube_refs n =
     [(n, n + 1, n + 2), (n, n + 1, n + 4), (n + 8, n + 6, n + 7), (n + 10, n + 6, n + 7),
      (n + 12, n + 14, n + 13), (n + 12, n + 16, n + 13)]"

text \<open>The array that holds one value in all four places.\<close>

definition constant_grid :: "'a \<Rightarrow> 'a grid" where
  "constant_grid v = [[v, v], [v, v]]"


text \<open>The calls of \<^verbatim>\<open>ax.plot_surface\<close> among the calls of a run, and the faces they
  were given.\<close>

fun is_draw :: "'a event \<Rightarrow> bool" where
  "is_draw (PlotSurface X Y Z colour alpha) = True"
| "is_draw _ = False"

text \<open>A call of \<^verbatim>\<open>ax.plot_surface\<close> with the colour purple and the opacity 0.01.\<close>

fun purple_call :: "'a event \<Rightarrow> bool" where
  "purple_call (PlotSurface X Y Z colour alpha) \<longleftrightarrow> colour = ''purple'' \<and> alpha = 1 / 100"
| "purple_call _ \<longleftrightarrow> False"

definition draw_calls :: "'a event list \<Rightarrow> 'a event list" where
  "draw_calls calls = filter is_draw calls"

definition draw :: "'a face \<Rightarrow> 'a event" where
  "draw fc = (case fc of (X, Y, Z) \<Rightarrow> PlotSurface X Y Z ''purple'' (1 / 100))"

text \<open>A tree that answers: it has \<open>n\<close> leaves, and for every index of \<^verbatim>\<open>range(n)\<close>
  the node and its two bounds are returned, the lower bound \<open>lb i\<close> with at least the
  three coordinates that \<^verbatim>\<open>plot_cube\<close> reads and the upper bound \<open>ub i\<close> with at least the
  one that the length is taken from.\<close>

definition leaf_lower :: "'a tree \<Rightarrow> int \<Rightarrow> error + 'a list" where
  "leaf_lower tree i = (case fetchEndNode tree i of Inl err \<Rightarrow> Inl err | Inr nd \<Rightarrow> lowerBounds nd)"

definition leaf_upper :: "'a tree \<Rightarrow> int \<Rightarrow> error + 'a list" where
  "leaf_upper tree i = (case fetchEndNode tree i of Inl err \<Rightarrow> Inl err | Inr nd \<Rightarrow> upperBounds nd)"

definition answers :: "'a tree \<Rightarrow> int \<Rightarrow> (int \<Rightarrow> 'a list) \<Rightarrow> (int \<Rightarrow> 'a list) \<Rightarrow> bool" where
  "answers tree n lb ub \<longleftrightarrow>
     nEndNodes tree = Inr n \<and>
     list_all (\<lambda>i. leaf_lower tree i = Inr (lb i) \<and> leaf_upper tree i = Inr (ub i)
                   \<and> 3 \<le> length (lb i) \<and> 1 \<le> length (ub i)) (py_range n)"

text \<open>A tree one of whose methods raises during the reading of the bounds.\<close>

definition accessor_raises :: "'a tree \<Rightarrow> bool" where
  "accessor_raises tree \<longleftrightarrow>
     (case nEndNodes tree of
        Inl err \<Rightarrow> True
      | Inr n \<Rightarrow> list_ex (\<lambda>i. isl (leaf_lower tree i) \<or> isl (leaf_upper tree i)) (py_range n))"

text \<open>The six faces of the cube at \<open>corner\<close> with edge \<open>len\<close>.\<close>

definition cube_faces :: "'a::plus list \<Rightarrow> 'a \<Rightarrow> 'a face list" where
  "cube_faces corner len =
     (case plot_cube corner len of Inl err \<Rightarrow> [] | Inr faces \<Rightarrow> faces)"

subsection \<open>Example trees\<close>

text \<open>One leaf, the unit cube at the origin; no leaf at all; one leaf whose
  \<^verbatim>\<open>upperBounds()\<close> raises.\<close>

definition unit_tree :: "real tree" where
  "unit_tree =
     \<lparr>nEndNodes = Inr 1,
      fetchEndNode = (\<lambda>i. if i = 0
         then Inr \<lparr>lowerBounds = Inr [0, 0, 0], upperBounds = Inr [1, 1, 1]\<rparr>
         else Inl IndexError)\<rparr>"

definition empty_tree :: "real tree" where
  "empty_tree = \<lparr>nEndNodes = Inr 0, fetchEndNode = (\<lambda>i. Inl IndexError)\<rparr>"

definition broken_tree :: "real tree" where
  "broken_tree =
     \<lparr>nEndNodes = Inr 1,
      fetchEndNode = (\<lambda>i. if i = 0
         then Inr \<lparr>lowerBounds = Inr [0, 0, 0], upperBounds = Inl (Raised ''upperBounds'')\<rparr>
         else Inl IndexError)\<rparr>"

section \<open>Properties of the face builders\<close>

lemma plot_surface_xy_eq:
  "plot_surface_xy x y z len =
     (([[x, x + len], [x, x + len]], [[y, y], [y + len, y + len]], [[z, z], [z, z]]),
      ([[x, x + len], [x, x + len]], [[y, y], [y + len, y + len]],
       [[z + len, z + len], [z + len, z + len]]))"
  by (simp add: plot_surface_xy_def meshgrid_def Let_def)

lemma plot_surface_yz_eq:
  "plot_surface_yz x y z len =
     (([[x, x], [x, x]], [[y, y + len], [y, y + len]], [[z, z], [z + len, z + len]]),
      ([[x + len, x + len], [x + len, x + len]], [[y, y + len], [y, y + len]],
       [[z, z], [z + len, z + len]]))"
  by (simp add: plot_surface_yz_def meshgrid_def Let_def)

lemma plot_surface_xz_eq:
  "plot_surface_xz x y z len =
     (([[x, x + len], [x, x + len]], [[y, y], [y, y]], [[z, z], [z + len, z + len]]),
      ([[x, x + len], [x, x + len]], [[y + len, y + len], [y + len, y + len]],
       [[z, z], [z + len, z + len]]))"
  by (simp add: plot_surface_xz_def meshgrid_def Let_def)

lemma subscript_first_three:
  assumes "3 \<le> length corner"
  shows "subscript corner 0 = Inr (corner ! 0)"
    and "subscript corner 1 = Inr (corner ! 1)"
    and "subscript corner 2 = Inr (corner ! 2)"
  using assms by (auto simp add: subscript_def)

lemma plot_cube_eq:
  assumes "3 \<le> length corner"
  shows "plot_cube corner len =
     Inr [fst (plot_surface_xy (corner ! 0) (corner ! 1) (corner ! 2) len),
          snd (plot_surface_xy (corner ! 0) (corner ! 1) (corner ! 2) len),
          fst (plot_surface_yz (corner ! 0) (corner ! 1) (corner ! 2) len),
          snd (plot_surface_yz (corner ! 0) (corner ! 1) (corner ! 2) len),
          fst (plot_surface_xz (corner ! 0) (corner ! 1) (corner ! 2) len),
          snd (plot_surface_xz (corner ! 0) (corner ! 1) (corner ! 2) len)]"
  by (simp add: plot_cube_def subscript_first_three [OF assms] split_beta Let_def)

lemma plot_surface_faces_2x2:
  "face_2x2 (fst (plot_surface_xy x y z len))" "face_2x2 (snd (plot_surface_xy x y z len))"
  "face_2x2 (fst (plot_surface_yz x y z len))" "face_2x2 (snd (plot_surface_yz x y z len))"
  "face_2x2 (fst (plot_surface_xz x y z len))" "face_2x2 (snd (plot_surface_xz x y z len))"
  by (simp_all add: plot_surface_xy_eq plot_surface_yz_eq plot_surface_xz_eq
        face_2x2_def is_2x2_def)

text \<open>
  \<^bold>\<open>C1.\<close> For every corner (a sequence with at least the three coordinates) and every
  length, \<^verbatim>\<open>plot_cube\<close> returns exactly six faces: the two faces of
  \<^verbatim>\<open>plot_surface_xy\<close>, then the two of \<^verbatim>\<open>plot_surface_yz\<close>, then the two of
  \<^verbatim>\<open>plot_surface_xz\<close>, each pair in the order low, high; and every face consists of three
  arrays of two rows by two columns.
\<close>

theorem plot_cube_six_faces:
  assumes "3 \<le> length corner"
  shows "\<exists>faces. plot_cube corner len = Inr faces
           \<and> length faces = 6
           \<and> faces = [fst (plot_surface_xy (corner ! 0) (corner ! 1) (corner ! 2) len),
                      snd (plot_surface_xy (corner ! 0) (corner ! 1) (corner ! 2) len),
                      fst (plot_surface_yz (corner ! 0) (corner ! 1) (corner ! 2) len),
                      snd (plot_surface_yz (corner ! 0) (corner ! 1) (corner ! 2) len),
                      fst (plot_surface_xz (corner ! 0) (corner ! 1) (corner ! 2) len),
                      snd (plot_surface_xz (corner ! 0) (corner ! 1) (corner ! 2) len)]
           \<and> list_all face_2x2 faces"
  by (simp add: plot_cube_eq [OF assms] plot_surface_faces_2x2)

theorem plot_cube_six_faces_witness:
  "3 \<le> length [0, 0, 0 :: int]
   \<and> (\<exists>faces. plot_cube [0, 0, 0 :: int] 1 = Inr faces
         \<and> length faces = 6
         \<and> faces = [fst (plot_surface_xy 0 0 0 1), snd (plot_surface_xy 0 0 0 1),
                    fst (plot_surface_yz 0 0 0 1), snd (plot_surface_yz 0 0 0 1),
                    fst (plot_surface_xz 0 0 0 1), snd (plot_surface_xz 0 0 0 1)]
         \<and> list_all face_2x2 faces)"
  using plot_cube_six_faces [of "[0, 0, 0 :: int]" 1] by simp

section \<open>Sequencing, comprehensions and loops\<close>

lemma and_then_Inl: "and_then (calls, Inl err) f = (calls, Inl err)"
  by (simp add: and_then_def)

lemma and_then_Inr: "and_then (calls, Inr v) f = (calls @ fst (f v), snd (f v))"
  by (simp add: and_then_def split_beta)

lemma and_then_call_Inr: "and_then (call ev (Inr v)) f = (ev # fst (f v), snd (f v))"
  by (simp add: and_then_def call_def split_beta)

lemma and_then_call_Inl: "and_then (call ev (Inl err)) f = ([ev], Inl err)"
  by (simp add: and_then_def call_def)

lemma fst_and_then:
  "fst (and_then m f) = fst m @ (case snd m of Inl err \<Rightarrow> [] | Inr v \<Rightarrow> fst (f v))"
  by (cases m) (auto simp add: and_then_def split_beta split: sum.splits)

lemma snd_and_then:
  "snd (and_then m f) = (case snd m of Inl err \<Rightarrow> Inl err | Inr v \<Rightarrow> snd (f v))"
  by (cases m) (auto simp add: and_then_def split_beta split: sum.splits)

lemma comprehension_ok:
  "(\<And>j. j \<in> set js \<Longrightarrow> f j = (l j, Inr (v j))) \<Longrightarrow>
   comprehension f js = (concat (map l js), Inr (map v js))"
  by (induction js) (simp_all add: and_then_Inr silent_def)

lemma for_loop_ok:
  "(\<And>x. x \<in> set xs \<Longrightarrow> body x = (l x, Inr ())) \<Longrightarrow>
   for_loop body xs = (concat (map l xs), Inr ())"
  by (induction xs) (simp_all add: and_then_Inr silent_def)

lemma subscript_range:
  "i \<in> set (py_range n) \<Longrightarrow> subscript (map g (py_range n)) i = Inr (g i)"
  by (auto simp add: subscript_def py_range_def)

lemma subscript_0: "1 \<le> length xs \<Longrightarrow> subscript xs 0 = Inr (xs ! 0)"
  by (auto simp add: subscript_def)

lemma answers_leaf:
  assumes "answers tree n lb ub" and "i \<in> set (py_range n)"
  shows "leaf_lower tree i = Inr (lb i)" and "leaf_upper tree i = Inr (ub i)"
    and "3 \<le> length (lb i)" and "1 \<le> length (ub i)"
  using assms by (simp_all add: answers_def list_all_iff)

lemma read_corner:
  assumes "leaf_lower tree i = Inr l"
  shows "corner_at tree i = ([FetchEndNode i, LowerBounds], Inr l)"
  using assms
  by (auto simp add: corner_at_def leaf_lower_def and_then_def call_def split: sum.splits)

lemma read_length:
  assumes "leaf_lower tree i = Inr l" and "leaf_upper tree i = Inr u"
    and "1 \<le> length l" and "1 \<le> length u"
  shows "length_at tree i = ([FetchEndNode i, UpperBounds, FetchEndNode i, LowerBounds], Inr (u ! 0 - l ! 0))"
  using assms
  by (auto simp add: length_at_def leaf_lower_def leaf_upper_def and_then_def call_def silent_def
      subscript_0
      split: sum.splits)

lemma corners_of_ok:
  assumes "answers tree n lb ub"
  shows "corners_of tree =
     (NEndNodes # concat (map (\<lambda>i. [FetchEndNode i, LowerBounds]) (py_range n)),
      Inr (map lb (py_range n)))"
proof -
  have n: "nEndNodes tree = Inr n"
    using assms by (simp add: answers_def)
  have body: "comprehension (corner_at tree) (py_range n)
     = (concat (map (\<lambda>i. [FetchEndNode i, LowerBounds]) (py_range n)), Inr (map lb (py_range n)))"
    by (rule comprehension_ok) (simp add: read_corner answers_leaf(1) [OF assms])
  show ?thesis
    by (simp add: corners_of_def n and_then_call_Inr body)
qed

lemma lengths_of_ok:
  assumes "answers tree n lb ub"
  shows "lengths_of tree =
     (NEndNodes # concat (map (\<lambda>i. [FetchEndNode i, UpperBounds, FetchEndNode i, LowerBounds])
                           (py_range n)),
      Inr (map (\<lambda>i. ub i ! 0 - lb i ! 0) (py_range n)))"
proof -
  have n: "nEndNodes tree = Inr n"
    using assms by (simp add: answers_def)
  have body: "comprehension (length_at tree) (py_range n)
     = (concat (map (\<lambda>i. [FetchEndNode i, UpperBounds, FetchEndNode i, LowerBounds]) (py_range n)),
        Inr (map (\<lambda>i. ub i ! 0 - lb i ! 0) (py_range n)))"
  proof (rule comprehension_ok)
    fix j assume j: "j \<in> set (py_range n)"
    have "1 \<le> length (lb j)"
      using answers_leaf(3) [OF assms j] by simp
    then show "length_at tree j
       = ([FetchEndNode j, UpperBounds, FetchEndNode j, LowerBounds], Inr (ub j ! 0 - lb j ! 0))"
      by (rule read_length [OF answers_leaf(1) [OF assms j] answers_leaf(2) [OF assms j] _
            answers_leaf(4) [OF assms j]])
  qed
  show ?thesis
    by (simp add: lengths_of_def n and_then_call_Inr body)
qed

lemma draw_faces_eq: "draw_faces data = (map draw data, Inr ())"
proof -
  have "for_loop (\<lambda>d. case d of (d0, d1, d2) \<Rightarrow>
                 call (PlotSurface d0 d1 d2 ''purple'' (1 / 100)) (Inr ())) data
        = (concat (map (\<lambda>d. [draw d]) data), Inr ())"
    by (rule for_loop_ok) (simp add: draw_def call_def split_beta)
  then show ?thesis
    by (simp add: draw_faces_def concat_map_singleton)
qed

lemma plot_cube_cube_faces:
  "3 \<le> length corner \<Longrightarrow> plot_cube corner len = Inr (cube_faces corner len)"
  by (simp add: cube_faces_def plot_cube_eq)

lemma length_cube_faces: "3 \<le> length corner \<Longrightarrow> length (cube_faces corner len) = 6"
  by (simp add: cube_faces_def plot_cube_eq)

lemma draw_cube_ok:
  assumes "i \<in> set (py_range n)" and "3 \<le> length (c i)"
  shows "draw_cube (map c (py_range n)) (map e (py_range n)) i
     = (map draw (cube_faces (c i) (e i)), Inr ())"
  using assms
  by (simp add: draw_cube_def subscript_range silent_def and_then_Inr draw_faces_eq
      plot_cube_cube_faces)

lemma draw_cubes_ok:
  assumes "nEndNodes tree = Inr n"
    and "\<And>i. i \<in> set (py_range n) \<Longrightarrow> 3 \<le> length (c i)"
  shows "draw_cubes tree (map c (py_range n)) (map e (py_range n)) =
     (NEndNodes # concat (map (\<lambda>i. map draw (cube_faces (c i) (e i))) (py_range n)), Inr ())"
proof -
  have body: "for_loop (draw_cube (map c (py_range n)) (map e (py_range n))) (py_range n)
     = (concat (map (\<lambda>i. map draw (cube_faces (c i) (e i))) (py_range n)), Inr ())"
    by (rule for_loop_ok) (simp add: draw_cube_ok assms(2))
  show ?thesis
    by (simp add: draw_cubes_def assms(1) and_then_call_Inr body)
qed

lemma grid_plotter_ok:
  assumes "answers tree n lb ub"
  shows "grid_plotter tree =
     ([Figure, AddSubplot 111 ''3d'', GridCall False, AxisCall ''off'']
      @ NEndNodes # concat (map (\<lambda>i. [FetchEndNode i, LowerBounds]) (py_range n))
      @ NEndNodes # concat (map (\<lambda>i. [FetchEndNode i, UpperBounds, FetchEndNode i, LowerBounds])
                             (py_range n))
      @ NEndNodes # concat (map (\<lambda>i. map draw (cube_faces (lb i) (ub i ! 0 - lb i ! 0)))
                             (py_range n)),
      Inr ())"
proof -
  have n: "nEndNodes tree = Inr n"
    using assms by (simp add: answers_def)
  show ?thesis
    by (simp add: grid_plotter_def and_then_call_Inr and_then_Inr corners_of_ok [OF assms]
        lengths_of_ok [OF assms] draw_cubes_ok [OF n answers_leaf(3) [OF assms]])
qed


subsection \<open>Calls of any run\<close>

lemma and_then_all:
  assumes "list_all P (fst m)" and "\<And>v. list_all P (fst (f v))"
  shows "list_all P (fst (and_then m f))"
  using assms by (simp add: fst_and_then split: sum.splits)

lemma silent_all: "list_all P (fst (silent r))"
  by (simp add: silent_def)

lemma comprehension_all:
  assumes "\<And>j. list_all P (fst (f j))"
  shows "list_all P (fst (comprehension f js))"
  by (induction js) (simp_all add: silent_all and_then_all assms)

lemma for_loop_all:
  assumes "\<And>x. list_all P (fst (body x))"
  shows "list_all P (fst (for_loop body xs))"
  by (induction xs) (simp_all add: silent_all and_then_all assms)

lemma call_no_draw: "\<not> is_draw ev \<Longrightarrow> list_all (\<lambda>e. \<not> is_draw e) (fst (call ev r))"
  by (simp add: call_def)

lemma corners_of_no_draw: "list_all (\<lambda>e. \<not> is_draw e) (fst (corners_of tree))"
  unfolding corners_of_def corner_at_def
  by (intro and_then_all comprehension_all call_no_draw) simp_all

lemma lengths_of_no_draw: "list_all (\<lambda>e. \<not> is_draw e) (fst (lengths_of tree))"
  unfolding lengths_of_def length_at_def
  by (intro and_then_all comprehension_all call_no_draw silent_all) simp_all

lemma purple_call_draw: "purple_call (draw fc)"
  by (simp add: draw_def split_beta)

lemma purple_call_is_draw: "purple_call ev \<Longrightarrow> is_draw ev"
  by (cases ev) simp_all

lemma draw_cubes_calls:
  "\<exists>ds. fst (draw_cubes tree corners lengths) = NEndNodes # ds \<and> list_all purple_call ds"
proof -
  have body: "list_all purple_call (fst (for_loop (draw_cube corners lengths) js))" for js
    unfolding draw_cube_def
    by (intro for_loop_all and_then_all silent_all)
      (simp add: draw_faces_eq list_all_iff purple_call_draw)
  show ?thesis
    unfolding draw_cubes_def
    by (cases "nEndNodes tree") (simp_all add: and_then_call_Inl and_then_call_Inr body)
qed

lemma grid_plotter_calls:
  "\<exists>pre post. fst (grid_plotter tree) = pre @ post
      \<and> list_all (\<lambda>e. \<not> is_draw e) pre \<and> list_all purple_call post"
proof -
  let ?axes = "[Figure, AddSubplot 111 ''3d'', GridCall False, AxisCall ''off'']"
  have Nil: "list_all purple_call ([] :: 'a event list)"
    by simp
  have calls: "fst (grid_plotter tree) = ?axes @ fst (corners_of tree) @
      (case snd (corners_of tree) of Inl err \<Rightarrow> []
       | Inr corners \<Rightarrow> fst (lengths_of tree) @
          (case snd (lengths_of tree) of Inl err \<Rightarrow> []
           | Inr lengths \<Rightarrow> fst (draw_cubes tree corners lengths)))"
    by (simp add: grid_plotter_def and_then_call_Inr fst_and_then split: sum.splits)
  show ?thesis
  proof (cases "snd (corners_of tree)")
    case (Inl err)
    then have "fst (grid_plotter tree) = (?axes @ fst (corners_of tree)) @ []"
      by (simp add: calls)
    moreover have "list_all (\<lambda>e. \<not> is_draw e) (?axes @ fst (corners_of tree))"
      by (simp add: corners_of_no_draw)
    ultimately show ?thesis
      using Nil by blast
  next
    case corners: (Inr corners)
    show ?thesis
    proof (cases "snd (lengths_of tree)")
      case (Inl err)
      then have "fst (grid_plotter tree)
          = (?axes @ fst (corners_of tree) @ fst (lengths_of tree)) @ []"
        by (simp add: calls corners)
      moreover have "list_all (\<lambda>e. \<not> is_draw e)
          (?axes @ fst (corners_of tree) @ fst (lengths_of tree))"
        by (simp add: corners_of_no_draw lengths_of_no_draw)
      ultimately show ?thesis
        using Nil by blast
    next
      case (Inr lengths)
      obtain ds where ds: "fst (draw_cubes tree corners lengths) = NEndNodes # ds"
        "list_all purple_call ds"
        using draw_cubes_calls by blast
      have "fst (grid_plotter tree)
          = (?axes @ fst (corners_of tree) @ fst (lengths_of tree) @ [NEndNodes]) @ ds"
        by (simp add: calls corners Inr ds(1))
      moreover have "list_all (\<lambda>e. \<not> is_draw e)
          (?axes @ fst (corners_of tree) @ fst (lengths_of tree) @ [NEndNodes])"
        by (simp add: corners_of_no_draw lengths_of_no_draw)
      ultimately show ?thesis
        using ds(2) by blast
    qed
  qed
qed

subsection \<open>A method of the tree raises\<close>

lemma comprehension_fails:
  "j \<in> set js \<Longrightarrow> isl (snd (f j)) \<Longrightarrow> isl (snd (comprehension f js))"
  by (induction js) (auto simp add: snd_and_then silent_def split: sum.splits)

lemma read_length_fails:
  assumes "isl (leaf_lower tree i) \<or> isl (leaf_upper tree i)"
  shows "isl (snd (length_at tree i))"
  using assms
  by (auto simp add: length_at_def leaf_lower_def leaf_upper_def snd_and_then call_def silent_def
      split: sum.splits)

lemma lengths_of_fails:
  assumes "accessor_raises tree"
  shows "isl (snd (lengths_of tree))"
proof (cases "nEndNodes tree")
  case (Inl err)
  then show ?thesis
    by (simp add: lengths_of_def and_then_call_Inl)
next
  case (Inr n)
  with assms obtain i where i: "i \<in> set (py_range n)"
      "isl (leaf_lower tree i) \<or> isl (leaf_upper tree i)"
    by (auto simp add: accessor_raises_def list_ex_iff)
  have "isl (snd (comprehension (length_at tree) (py_range n)))"
    using i(1) read_length_fails [OF i(2)] by (rule comprehension_fails)
  then show ?thesis
    by (simp add: lengths_of_def Inr and_then_call_Inr)
qed

lemma grid_plotter_fails:
  assumes "isl (snd (lengths_of tree))"
  shows "isl (snd (grid_plotter tree))" and "draw_calls (fst (grid_plotter tree)) = []"
proof -
  show "isl (snd (grid_plotter tree))"
    using assms
    by (auto simp add: grid_plotter_def and_then_call_Inr snd_and_then split: sum.splits)
  have "list_all (\<lambda>e. \<not> is_draw e) (fst (grid_plotter tree))"
    using assms
    by (auto simp add: grid_plotter_def and_then_call_Inr fst_and_then corners_of_no_draw
        lengths_of_no_draw split: sum.splits)
  then show "draw_calls (fst (grid_plotter tree)) = []"
    by (simp add: draw_calls_def filter_empty_conv list_all_iff)
qed


subsection \<open>The calls of a render that reads every leaf\<close>

lemma draw_calls_append: "draw_calls (xs @ ys) = draw_calls xs @ draw_calls ys"
  by (simp add: draw_calls_def)

lemma draw_calls_Cons:
  "draw_calls (ev # xs) = (if is_draw ev then ev # draw_calls xs else draw_calls xs)"
  by (simp add: draw_calls_def)

lemma draw_calls_corner_calls:
  "draw_calls (concat (map (\<lambda>i. [FetchEndNode i, LowerBounds]) js)) = []"
  by (induction js) (simp_all add: draw_calls_def)

lemma draw_calls_length_calls:
  "draw_calls (concat (map (\<lambda>i. [FetchEndNode i, UpperBounds, FetchEndNode i, LowerBounds]) js))
     = []"
  by (induction js) (simp_all add: draw_calls_def)

lemma is_draw_draw: "is_draw (draw fc)"
  by (simp add: draw_def split_beta)

lemma draw_calls_draws:
  "draw_calls (concat (map (\<lambda>i. map draw (g i)) js)) = concat (map (\<lambda>i. map draw (g i)) js)"
  by (simp add: draw_calls_def filter_id_conv is_draw_draw)

lemma draw_calls_ok:
  assumes "answers tree n lb ub"
  shows "draw_calls (fst (grid_plotter tree))
     = concat (map (\<lambda>i. map draw (cube_faces (lb i) (ub i ! 0 - lb i ! 0))) (py_range n))"
  by (simp add: grid_plotter_ok [OF assms] draw_calls_append draw_calls_Cons
      draw_calls_corner_calls draw_calls_length_calls draw_calls_draws)

lemma length_draws:
  assumes "\<And>i. i \<in> set js \<Longrightarrow> 3 \<le> length (c i)"
  shows "length (concat (map (\<lambda>i. map draw (cube_faces (c i) (e i))) js)) = 6 * length js"
  using assms by (induction js) (simp_all add: length_cube_faces)

lemma length_py_range: "length (py_range n) = nat n"
  by (simp add: py_range_def)

lemma distinct_py_range: "distinct (py_range n)"
  by (simp add: py_range_def distinct_map)

lemma count_fetch_corner_calls:
  "distinct js \<Longrightarrow>
   count_list (concat (map (\<lambda>i. [FetchEndNode i, LowerBounds]) js)) (FetchEndNode k)
     = (if k \<in> set js then 1 else 0)"
  by (induction js) auto

lemma count_fetch_length_calls:
  "distinct js \<Longrightarrow>
   count_list (concat (map (\<lambda>i. [FetchEndNode i, UpperBounds, FetchEndNode i, LowerBounds]) js))
     (FetchEndNode k) = (if k \<in> set js then 2 else 0)"
  by (induction js) auto

lemma count_no_draw:
  "\<not> is_draw ev \<Longrightarrow> count_list (concat (map (\<lambda>i. map draw (g i)) js)) ev = 0"
  by (rule count_notin) (auto simp add: is_draw_draw)

lemma count_nEndNodes_corner_calls:
  "count_list (concat (map (\<lambda>i. [FetchEndNode i, LowerBounds]) js)) NEndNodes = 0"
  by (induction js) simp_all

lemma count_nEndNodes_length_calls:
  "count_list (concat (map (\<lambda>i. [FetchEndNode i, UpperBounds, FetchEndNode i, LowerBounds]) js))
     NEndNodes = 0"
  by (induction js) simp_all

section \<open>Properties of the renderer and of the builders\<close>

text \<open>
  \<^bold>\<open>C2.\<close> For every corner \<open>(x, y, z)\<close> and every length, \<^verbatim>\<open>plot_surface_xy\<close> returns
  two faces. The Z array of the first holds \<open>z\<close> in all four places, the Z array of the
  second holds \<open>z + len\<close>; in both faces the entries of the X array are exactly \<open>x\<close> and
  \<open>x + len\<close> and the entries of the Y array are exactly \<open>y\<close> and \<open>y + len\<close>; every array
  has two rows of two entries.
\<close>

theorem plot_surface_xy_faces:
  "grid_Z (fst (plot_surface_xy x y z len)) = constant_grid z
   \<and> grid_Z (snd (plot_surface_xy x y z len)) = constant_grid (z + len)
   \<and> grid_values (grid_Z (fst (plot_surface_xy x y z len))) = {z}
   \<and> grid_values (grid_Z (snd (plot_surface_xy x y z len))) = {z + len}
   \<and> grid_values (grid_X (fst (plot_surface_xy x y z len))) = {x, x + len}
   \<and> grid_values (grid_Y (fst (plot_surface_xy x y z len))) = {y, y + len}
   \<and> grid_values (grid_X (snd (plot_surface_xy x y z len))) = {x, x + len}
   \<and> grid_values (grid_Y (snd (plot_surface_xy x y z len))) = {y, y + len}
   \<and> face_2x2 (fst (plot_surface_xy x y z len))
   \<and> face_2x2 (snd (plot_surface_xy x y z len))"
  by (auto simp add: plot_surface_xy_eq grid_X_def grid_Y_def grid_Z_def constant_grid_def
      grid_values_def face_2x2_def is_2x2_def)

text \<open>
  \<^bold>\<open>C3.\<close> \<^verbatim>\<open>plot_surface_yz\<close> returns two faces whose X arrays are constant, \<open>x\<close> in the
  first and \<open>x + len\<close> in the second, with the Y entries \<open>y\<close>, \<open>y + len\<close> and the Z entries
  \<open>z\<close>, \<open>z + len\<close>. \<^verbatim>\<open>plot_surface_xz\<close> returns two faces whose Y arrays are constant,
  \<open>y\<close> in the first and \<open>y + len\<close> in the second, with the X entries \<open>x\<close>, \<open>x + len\<close> and
  the Z entries \<open>z\<close>, \<open>z + len\<close>. Every array has two rows of two entries.
\<close>

theorem plot_surface_yz_xz_faces:
  "grid_X (fst (plot_surface_yz x y z len)) = constant_grid x
   \<and> grid_X (snd (plot_surface_yz x y z len)) = constant_grid (x + len)
   \<and> grid_values (grid_Y (fst (plot_surface_yz x y z len))) = {y, y + len}
   \<and> grid_values (grid_Z (fst (plot_surface_yz x y z len))) = {z, z + len}
   \<and> grid_values (grid_Y (snd (plot_surface_yz x y z len))) = {y, y + len}
   \<and> grid_values (grid_Z (snd (plot_surface_yz x y z len))) = {z, z + len}
   \<and> face_2x2 (fst (plot_surface_yz x y z len))
   \<and> face_2x2 (snd (plot_surface_yz x y z len))
   \<and> grid_Y (fst (plot_surface_xz x y z len)) = constant_grid y
   \<and> grid_Y (snd (plot_surface_xz x y z len)) = constant_grid (y + len)
   \<and> grid_values (grid_X (fst (plot_surface_xz x y z len))) = {x, x + len}
   \<and> grid_values (grid_Z (fst (plot_surface_xz x y z len))) = {z, z + len}
   \<and> grid_values (grid_X (snd (plot_surface_xz x y z len))) = {x, x + len}
   \<and> grid_values (grid_Z (snd (plot_surface_xz x y z len))) = {z, z + len}
   \<and> face_2x2 (fst (plot_surface_xz x y z len))
   \<and> face_2x2 (snd (plot_surface_xz x y z len))"
  by (auto simp add: plot_surface_yz_eq plot_surface_xz_eq grid_X_def grid_Y_def grid_Z_def
      constant_grid_def grid_values_def face_2x2_def is_2x2_def)

text \<open>
  \<^bold>\<open>C4.\<close> When the tree answers with \<open>n\<close> leaves, the render returns normally and the
  faces it draws are, leaf after leaf for the indices of \<^verbatim>\<open>range(n)\<close>, the six faces that
  \<^verbatim>\<open>plot_cube\<close> returns for the corner \<open>lb i\<close> (the leaf's lower bounds) and the edge
  \<open>ub i ! 0 - lb i ! 0\<close>: the extent along the first axis alone, used for all three axes.
\<close>

theorem grid_plotter_x_extent:
  assumes "answers tree n lb ub"
  shows "snd (grid_plotter tree) = Inr ()
     \<and> draw_calls (fst (grid_plotter tree))
         = concat (map (\<lambda>i. map draw (cube_faces (lb i) (ub i ! 0 - lb i ! 0))) (py_range n))
     \<and> list_all (\<lambda>i. plot_cube (lb i) (ub i ! 0 - lb i ! 0)
                         = Inr (cube_faces (lb i) (ub i ! 0 - lb i ! 0))
                     \<and> length (cube_faces (lb i) (ub i ! 0 - lb i ! 0)) = 6) (py_range n)"
proof -
  have "snd (grid_plotter tree) = Inr ()"
    by (simp add: grid_plotter_ok [OF assms])
  moreover note draw_calls_ok [OF assms]
  moreover have "list_all (\<lambda>i. plot_cube (lb i) (ub i ! 0 - lb i ! 0)
                         = Inr (cube_faces (lb i) (ub i ! 0 - lb i ! 0))
                     \<and> length (cube_faces (lb i) (ub i ! 0 - lb i ! 0)) = 6) (py_range n)"
    by (simp add: list_all_iff plot_cube_cube_faces length_cube_faces answers_leaf(3) [OF assms])
  ultimately show ?thesis
    by simp
qed

lemma answers_unit_tree: "answers unit_tree 1 (\<lambda>i. [0, 0, 0]) (\<lambda>i. [1, 1, 1])"
  by (simp add: answers_def unit_tree_def py_range_def leaf_lower_def leaf_upper_def)

theorem grid_plotter_x_extent_witness:
  "answers unit_tree 1 (\<lambda>i. [0, 0, 0]) (\<lambda>i. [1, 1, 1])
   \<and> snd (grid_plotter unit_tree) = Inr ()
   \<and> draw_calls (fst (grid_plotter unit_tree))
       = map draw (cube_faces [0, 0, 0] 1)
   \<and> plot_cube [0, 0, 0 :: real] 1 = Inr (cube_faces [0, 0, 0] 1)
   \<and> length (cube_faces [0, 0, 0 :: real] 1) = 6"
  using grid_plotter_x_extent [OF answers_unit_tree] answers_unit_tree
  by (simp add: py_range_def)

text \<open>
  \<^bold>\<open>C5.\<close> When the tree answers with \<open>n\<close> leaves, the render returns normally after
  exactly \<open>n\<close> times 6 calls of \<^verbatim>\<open>ax.plot_surface\<close>, every one with the colour purple and
  the opacity 0.01.
\<close>

theorem grid_plotter_six_per_leaf:
  assumes "answers tree n lb ub"
  shows "snd (grid_plotter tree) = Inr ()
     \<and> length (draw_calls (fst (grid_plotter tree))) = nat n * 6
     \<and> list_all purple_call (draw_calls (fst (grid_plotter tree)))"
proof -
  have "snd (grid_plotter tree) = Inr ()"
    by (simp add: grid_plotter_ok [OF assms])
  moreover have "length (draw_calls (fst (grid_plotter tree))) = nat n * 6"
    by (simp add: draw_calls_ok [OF assms] length_draws answers_leaf(3) [OF assms]
        length_py_range)
  moreover have "list_all purple_call (draw_calls (fst (grid_plotter tree)))"
    by (simp add: draw_calls_ok [OF assms] list_all_iff purple_call_draw)
  ultimately show ?thesis
    by simp
qed

theorem grid_plotter_six_per_leaf_witness:
  "answers unit_tree 1 (\<lambda>i. [0, 0, 0]) (\<lambda>i. [1, 1, 1])
   \<and> snd (grid_plotter unit_tree) = Inr ()
   \<and> length (draw_calls (fst (grid_plotter unit_tree))) = 6
   \<and> list_all purple_call (draw_calls (fst (grid_plotter unit_tree)))"
  using grid_plotter_six_per_leaf [OF answers_unit_tree] answers_unit_tree
  by simp

text \<open>
  \<^bold>\<open>C6.\<close> When \<^verbatim>\<open>tree.nEndNodes()\<close> is zero the render sets the axes up, asks for the
  number of leaves three times and returns normally: it draws nothing and raises
  nothing.
\<close>

theorem grid_plotter_no_leaves:
  assumes "nEndNodes tree = Inr 0"
  shows "grid_plotter tree =
       ([Figure, AddSubplot 111 ''3d'', GridCall False, AxisCall ''off'',
         NEndNodes, NEndNodes, NEndNodes], Inr ())
     \<and> draw_calls (fst (grid_plotter tree)) = []"
  by (simp add: grid_plotter_def corners_of_def lengths_of_def draw_cubes_def assms
      and_then_call_Inr and_then_Inr py_range_def silent_def draw_calls_def)

theorem grid_plotter_no_leaves_witness:
  "nEndNodes empty_tree = Inr 0
   \<and> grid_plotter empty_tree =
       ([Figure, AddSubplot 111 ''3d'', GridCall False, AxisCall ''off'',
         NEndNodes, NEndNodes, NEndNodes], Inr ())
   \<and> draw_calls (fst (grid_plotter empty_tree)) = []"
proof -
  have h: "nEndNodes empty_tree = Inr 0"
    by (simp add: empty_tree_def)
  show ?thesis
    using h grid_plotter_no_leaves [OF h] by blast
qed

section \<open>The builders and their arrays\<close>

lemma plot_surface_xy_st_eq:
  "plot_surface_xy_st x y z len s =
     (((length s, length s + 1, length s + 2), (length s, length s + 1, length s + 4)),
      s @ [[[x, x + len], [x, x + len]], [[y, y], [y + len, y + len]],
           [[z, z], [z, z]], [[z, z], [z, z]],
           [[z + len, z + len], [z + len, z + len]], [[z + len, z + len], [z + len, z + len]]])"
  by (simp add: plot_surface_xy_st_def meshgrid_st_def meshgrid_def Let_def)

lemma plot_surface_yz_st_eq:
  "plot_surface_yz_st x y z len s =
     (((length s + 2, length s, length s + 1), (length s + 4, length s, length s + 1)),
      s @ [[[y, y + len], [y, y + len]], [[z, z], [z + len, z + len]],
           [[x, x], [x, x]], [[x, x], [x, x]],
           [[x + len, x + len], [x + len, x + len]], [[x + len, x + len], [x + len, x + len]]])"
  by (simp add: plot_surface_yz_st_def meshgrid_st_def meshgrid_def Let_def)

lemma plot_surface_xz_st_eq:
  "plot_surface_xz_st x y z len s =
     (((length s, length s + 2, length s + 1), (length s, length s + 4, length s + 1)),
      s @ [[[x, x + len], [x, x + len]], [[z, z], [z + len, z + len]],
           [[y, y], [y, y]], [[y, y], [y, y]],
           [[y + len, y + len], [y + len, y + len]], [[y + len, y + len], [y + len, y + len]]])"
  by (simp add: plot_surface_xz_st_def meshgrid_st_def meshgrid_def Let_def)

lemma plot_cube_st_eq:
  assumes "3 \<le> length corner"
  shows "plot_cube_st corner len s =
     (Inr (cube_refs (length s)), s @ cube_arrays (corner ! 0) (corner ! 1) (corner ! 2) len)"
  by (simp add: plot_cube_st_def subscript_first_three [OF assms] plot_surface_xy_st_eq
      plot_surface_yz_st_eq plot_surface_xz_st_eq cube_refs_def cube_arrays_def)

lemma short_corner:
  assumes "\<not> 3 \<le> length corner"
  shows "plot_cube corner len = Inl IndexError"
    and "plot_cube_st corner len s = (Inl IndexError, s)"
  using assms
  by (auto simp add: plot_cube_def plot_cube_st_def subscript_def split: sum.splits)

lemma array_at_append:
  "k < length xs \<Longrightarrow> array_at (s @ xs @ ys) (length s + k) = Some (xs ! k)"
  by (simp add: array_at_def nth_append)

lemma length_cube_arrays: "length (cube_arrays x y z len) = 18"
  by (simp add: cube_arrays_def)

lemma returned_cube_refs:
  "returned ((s @ cube_arrays x y z len) @ t) (Inr (cube_refs (length s)))
     = Inr (map Some [fst (plot_surface_xy x y z len), snd (plot_surface_xy x y z len),
          fst (plot_surface_yz x y z len), snd (plot_surface_yz x y z len),
          fst (plot_surface_xz x y z len), snd (plot_surface_xz x y z len)])"
  by (simp add: returned_def cube_refs_def face_at_def array_at_def nth_append cube_arrays_def
      plot_surface_xy_eq plot_surface_yz_eq plot_surface_xz_eq)


lemma outcome_eq:
  "outcome corner len s =
     (case plot_cube corner len of Inl err \<Rightarrow> Inl err | Inr faces \<Rightarrow> Inr (map Some faces))"
proof (cases "3 \<le> length corner")
  case True
  show ?thesis
    using returned_cube_refs [of s "corner ! 0" "corner ! 1" "corner ! 2" len "[]"]
    by (simp add: outcome_def plot_cube_st_eq [OF True] plot_cube_eq [OF True])
next
  case False
  then show ?thesis
    by (simp add: outcome_def short_corner returned_def)
qed

lemma plot_cube_st_extends: "take (length s) (snd (plot_cube_st corner len s)) = s"
  by (cases "3 \<le> length corner") (simp_all add: plot_cube_st_eq short_corner)

lemma first_result_kept:
  "returned (snd (plot_cube_st corner len (snd (plot_cube_st corner len s))))
     (fst (plot_cube_st corner len s)) = outcome corner len s"
proof (cases "3 \<le> length corner")
  case True
  show ?thesis
    using returned_cube_refs [of s "corner ! 0" "corner ! 1" "corner ! 2" len
        "cube_arrays (corner ! 0) (corner ! 1) (corner ! 2) len"]
    by (simp add: outcome_eq plot_cube_st_eq [OF True] plot_cube_eq [OF True])
next
  case False
  then show ?thesis
    by (simp add: outcome_def short_corner returned_def)
qed

text \<open>
  \<^bold>\<open>C7.\<close> \<^verbatim>\<open>plot_cube\<close> is deterministic and free of side effects. Two calls with the
  same corner and the same length, in any two stores, return the same six faces (or the
  same exception), and these are the faces of the function \<open>plot_cube\<close> of the corner and
  the length alone. A call leaves every array that existed before it as it was: it only
  allocates. When the call is made a second time, in the store that the first call left,
  it returns the same again, and what the first call returned still reads the same.
\<close>

theorem plot_cube_deterministic:
  "outcome corner len s1 = outcome corner len s2
   \<and> outcome corner len s1
       = (case plot_cube corner len of Inl err \<Rightarrow> Inl err | Inr faces \<Rightarrow> Inr (map Some faces))
   \<and> take (length s1) (snd (plot_cube_st corner len s1)) = s1
   \<and> outcome corner len (snd (plot_cube_st corner len s1)) = outcome corner len s1
   \<and> returned (snd (plot_cube_st corner len (snd (plot_cube_st corner len s1))))
        (fst (plot_cube_st corner len s1)) = outcome corner len s1"
  by (simp add: outcome_eq plot_cube_st_extends first_result_kept)



section \<open>The calls on the tree\<close>

text \<open>
  \<^bold>\<open>C9.\<close> In a render of a tree that answers with \<open>n\<close> leaves, \<^verbatim>\<open>tree.nEndNodes()\<close> is
  called three times, and \<^verbatim>\<open>tree.fetchEndNode(i)\<close> is called three times for every
  \<open>i\<close> of \<^verbatim>\<open>range(n)\<close>: once in the comprehension of the corners, followed by
  \<^verbatim>\<open>lowerBounds()\<close>, and twice in the comprehension of the lengths, followed by
  \<^verbatim>\<open>upperBounds()\<close> and by \<^verbatim>\<open>lowerBounds()\<close>.
\<close>

theorem grid_plotter_repeated_calls:
  assumes "answers tree n lb ub"
  shows "count_list (fst (grid_plotter tree)) NEndNodes = 3
     \<and> list_all (\<lambda>i. count_list (fst (grid_plotter tree)) (FetchEndNode i) = 3) (py_range n)
     \<and> fst (corners_of tree)
         = NEndNodes # concat (map (\<lambda>i. [FetchEndNode i, LowerBounds]) (py_range n))
     \<and> fst (lengths_of tree)
         = NEndNodes # concat (map (\<lambda>i. [FetchEndNode i, UpperBounds,
                                           FetchEndNode i, LowerBounds]) (py_range n))"
proof -
  have "count_list (fst (grid_plotter tree)) NEndNodes = 3"
    by (simp add: grid_plotter_ok [OF assms] count_nEndNodes_corner_calls
        count_nEndNodes_length_calls count_no_draw)
  moreover have "count_list (fst (grid_plotter tree)) (FetchEndNode i) = 3"
    if "i \<in> set (py_range n)" for i
    using that
    by (simp add: grid_plotter_ok [OF assms] count_fetch_corner_calls count_fetch_length_calls
        count_no_draw distinct_py_range)
  ultimately show ?thesis
    by (simp add: list_all_iff corners_of_ok [OF assms] lengths_of_ok [OF assms])
qed

theorem grid_plotter_repeated_calls_witness:
  "answers unit_tree 1 (\<lambda>i. [0, 0, 0]) (\<lambda>i. [1, 1, 1])
   \<and> count_list (fst (grid_plotter unit_tree)) NEndNodes = 3
   \<and> count_list (fst (grid_plotter unit_tree)) (FetchEndNode 0) = 3
   \<and> fst (corners_of unit_tree) = [NEndNodes, FetchEndNode 0, LowerBounds]
   \<and> fst (lengths_of unit_tree)
       = [NEndNodes, FetchEndNode 0, UpperBounds, FetchEndNode 0, LowerBounds]"
  using grid_plotter_repeated_calls [OF answers_unit_tree] answers_unit_tree
  by (simp add: py_range_def)

text \<open>
  \<^bold>\<open>C10.\<close> For every tree, the calls of a render are a sequence without any
  \<^verbatim>\<open>ax.plot_surface\<close> followed by a sequence of nothing but \<^verbatim>\<open>ax.plot_surface\<close>: no
  method of the tree is called once the first face is drawn. And when a method of the tree
  raises while the bounds are read, the render ends with an exception and has drawn no
  face.
\<close>

theorem grid_plotter_reads_before_drawing:
  "(\<exists>pre post. fst (grid_plotter tree) = pre @ post
       \<and> list_all (\<lambda>e. \<not> is_draw e) pre \<and> list_all is_draw post)
   \<and> (accessor_raises tree \<longrightarrow>
         isl (snd (grid_plotter tree)) \<and> draw_calls (fst (grid_plotter tree)) = [])"
proof -
  obtain pre post where split: "fst (grid_plotter tree) = pre @ post"
      "list_all (\<lambda>e. \<not> is_draw e) pre" and purple: "list_all purple_call post"
    using grid_plotter_calls by blast
  have "list_all is_draw post"
    using purple by (simp add: list_all_iff purple_call_is_draw)
  with split have "\<exists>pre post. fst (grid_plotter tree) = pre @ post
       \<and> list_all (\<lambda>e. \<not> is_draw e) pre \<and> list_all is_draw post"
    by blast
  then show ?thesis
    using grid_plotter_fails [OF lengths_of_fails] by blast
qed

theorem grid_plotter_reads_before_drawing_witness:
  "accessor_raises broken_tree
   \<and> isl (snd (grid_plotter broken_tree)) \<and> draw_calls (fst (grid_plotter broken_tree)) = []"
proof -
  have h: "accessor_raises broken_tree"
    by (simp add: accessor_raises_def broken_tree_def py_range_def leaf_lower_def leaf_upper_def)
  show ?thesis
    using h grid_plotter_reads_before_drawing [of broken_tree] by blast
qed

end
